theory Spec2Isabelle
  imports Main "HOL-Library.Word" "HOL-Library.Monad_Syntax"
begin

unbundle bit_operations_syntax

section \<open>Grids of 8-bit samples\<close>

text \<open>
  \<^verbatim>\<open>main.py\<close> works on NumPy arrays of dtype \<^verbatim>\<open>uint8\<close> and shape (rows, columns):
  the grayscale raster returned by \<^verbatim>\<open>cv2.imread\<close>, the masks derived from it and the
  two structuring elements. A grid is the list of its rows, top to bottom.
\<close>

type_synonym pixel = "8 word"
type_synonym grid = "pixel list list"

definition height :: "grid \<Rightarrow> nat" where
  "height g = length g"

definition width :: "grid \<Rightarrow> nat" where
  "width g = (case g of [] \<Rightarrow> 0 | row # _ \<Rightarrow> length row)"

text \<open>An array is rectangular: every row has the width of the first one.\<close>

definition rect :: "grid \<Rightarrow> bool" where
  "rect g = list_all (\<lambda>row. length row = width g) g"

section \<open>The library calls made by \<^verbatim>\<open>apply_hit_or_miss\<close>\<close>

text \<open>
  \<^verbatim>\<open>cv2.threshold(src, thresh, maxval, cv2.THRESH_BINARY)\<close>: the library's rule for
  \<^verbatim>\<open>THRESH_BINARY\<close> is \<^verbatim>\<open>dst = maxval if src > thresh else 0\<close>, sample by sample.
  The call returns a pair whose first component the source discards (\<^verbatim>\<open>_, binary_image\<close>);
  the model returns the array.
\<close>

definition cv2_threshold :: "grid \<Rightarrow> nat \<Rightarrow> pixel \<Rightarrow> grid" where
  "cv2_threshold src thresh maxval =
     map (map (\<lambda>v. if thresh < unat v then maxval else 0)) src"

text \<open>
  \<^verbatim>\<open>cv2.getStructuringElement(cv2.MORPH_ELLIPSE, (kw, kh))\<close>. With \<^verbatim>\<open>r = kh / 2\<close> and
  \<^verbatim>\<open>c = kw / 2\<close> (integer division), row \<^verbatim>\<open>i\<close> at vertical distance \<^verbatim>\<open>dy = i - r\<close> from
  the centre holds ones in the columns \<^verbatim>\<open>max(c - dx, 0) .. min(c + dx + 1, kw) - 1\<close>, where
  \<^verbatim>\<open>dx\<close> is \<^verbatim>\<open>c * sqrt((r*r - dy*dy) / (r*r))\<close> rounded to the nearest integer, and
  zeros elsewhere. The library rounds a floating-point number; here \<^verbatim>\<open>dx\<close> is computed
  exactly, as the least \<^verbatim>\<open>d\<close> with \<^verbatim>\<open>c * sqrt(k) / r < d + 1/2\<close>, that is
  \<^verbatim>\<open>4 c c k < (2 d + 1) (2 d + 1) r r\<close>, for \<^verbatim>\<open>k = r*r - dy*dy\<close>; it never exceeds \<^verbatim>\<open>c\<close>.
\<close>

definition ellipse_dx :: "nat \<Rightarrow> nat \<Rightarrow> nat \<Rightarrow> nat" where
  "ellipse_dx c r k =
     (if r = 0 then 0
      else case find (\<lambda>d. 4 * c * c * k < (2 * d + 1) * (2 * d + 1) * (r * r)) [0..<c] of
             Some d \<Rightarrow> d
           | None \<Rightarrow> c)"

definition ellipse_row :: "nat \<Rightarrow> nat \<Rightarrow> nat \<Rightarrow> pixel list" where
  "ellipse_row kw kh i =
     (let r = kh div 2; c = kw div 2; dy = int i - int r
      in if \<bar>dy\<bar> \<le> int r
         then let dx = ellipse_dx c r (r * r - nat (dy * dy));
                  j1 = max (int c - int dx) 0;
                  j2 = min (int c + int dx + 1) (int kw)
              in map (\<lambda>j. if j1 \<le> int j \<and> int j < j2 then 1 else 0) [0..<kw]
         else replicate kw 0)"

definition cv2_getStructuringElement_ellipse :: "nat \<Rightarrow> nat \<Rightarrow> grid" where
  "cv2_getStructuringElement_ellipse kw kh = map (ellipse_row kw kh) [0..<kh]"

text \<open>
  The NumPy slice assignment \<^verbatim>\<open>a[r0:r1, c0:c1] = v\<close> with non-negative bounds: the cells
  whose row index is in \<^verbatim>\<open>r0 .. r1 - 1\<close> and whose column index is in \<^verbatim>\<open>c0 .. c1 - 1\<close>
  take the value \<^verbatim>\<open>v\<close>; a slice reaching past the array is clipped to it.
\<close>

definition assign_slice :: "grid \<Rightarrow> nat \<Rightarrow> nat \<Rightarrow> nat \<Rightarrow> nat \<Rightarrow> pixel \<Rightarrow> grid" where
  "assign_slice a r0 r1 c0 c1 v =
     map (\<lambda>(i, row).
            map (\<lambda>(j, x). if r0 \<le> i \<and> i < r1 \<and> c0 \<le> j \<and> j < c1 then v else x)
                (enumerate 0 row))
         (enumerate 0 a)"

text \<open>
  \<^verbatim>\<open>cv2.erode(src, kernel, iterations=1)\<close> with the default anchor and border:
  \<^verbatim>\<open>dst(y, x) = min { src(y + i - ay, x + j - ax) | kernel(i, j) \<noteq> 0 }\<close>,
  the anchor \<^verbatim>\<open>(ay, ax)\<close> being the kernel centre \<^verbatim>\<open>(rows / 2, cols / 2)\<close>. The default
  border is constant with the library's default morphology border value, which erosion
  of an 8-bit array reads as 255: a position outside the array never lowers the minimum.
\<close>

definition sample :: "grid \<Rightarrow> int \<Rightarrow> int \<Rightarrow> pixel" where
  "sample src y x =
     (if 0 \<le> y \<and> y < int (height src) \<and> 0 \<le> x \<and> x < int (width src)
      then src ! nat y ! nat x else 255)"

definition kernel_offsets :: "grid \<Rightarrow> (int \<times> int) list" where
  "kernel_offsets ker =
     (let ay = int (height ker div 2); ax = int (width ker div 2)
      in concat (map (\<lambda>(i, row).
                        map (\<lambda>(j, e). (int i - ay, int j - ax))
                            (filter (\<lambda>(j, e). e \<noteq> 0) (enumerate 0 row)))
                     (enumerate 0 ker)))"

definition erode_at :: "grid \<Rightarrow> (int \<times> int) list \<Rightarrow> nat \<Rightarrow> nat \<Rightarrow> pixel" where
  "erode_at src offs y x =
     fold min (map (\<lambda>(dy, dx). sample src (int y + dy) (int x + dx)) offs) 255"

definition cv2_erode :: "grid \<Rightarrow> grid \<Rightarrow> grid" where
  "cv2_erode src ker =
     (let offs = kernel_offsets ker
      in map (\<lambda>y. map (\<lambda>x. erode_at src offs y x) [0..<width src]) [0..<height src])"

text \<open>\<^verbatim>\<open>cv2.bitwise_not\<close> and \<^verbatim>\<open>cv2.bitwise_and\<close> work bit by bit on each sample.\<close>

definition cv2_bitwise_not :: "grid \<Rightarrow> grid" where
  "cv2_bitwise_not src = map (map (\<lambda>v. NOT v)) src"

definition cv2_bitwise_and :: "grid \<Rightarrow> grid \<Rightarrow> grid" where
  "cv2_bitwise_and src1 src2 = map2 (map2 (\<lambda>u v. u AND v)) src1 src2"

section \<open>The arrays of one run\<close>

text \<open>
  The body of \<^verbatim>\<open>apply_hit_or_miss\<close> binds each of its local names once to a freshly
  allocated array, and overwrites one array in place (the slice assignment of line 32).
  To keep the two apart the state has a heap of arrays, addressed by their position,
  and an environment from local names to addresses.
\<close>

record pystate =
  env :: "string \<rightharpoonup> nat"
  heap :: "grid list"

definition new_array :: "string \<Rightarrow> grid \<Rightarrow> pystate \<Rightarrow> pystate" where
  "new_array x a s = \<lparr>env = (env s)(x \<mapsto> length (heap s)), heap = heap s @ [a]\<rparr>"

text \<open>Reading a local name; \<open>None\<close> stands for Python's \<^verbatim>\<open>NameError\<close>.\<close>

definition array_of :: "pystate \<Rightarrow> string \<Rightarrow> grid option" where
  "array_of s x =
     (case env s x of
        None \<Rightarrow> None
      | Some p \<Rightarrow> if p < length (heap s) then Some (heap s ! p) else None)"

text \<open>Line 12 binds \<^verbatim>\<open>image_gray\<close> to the raster that \<^verbatim>\<open>cv2.imread\<close> returned.\<close>

definition initial :: "grid \<Rightarrow> pystate" where
  "initial image_gray = new_array ''image_gray'' image_gray \<lparr>env = Map.empty, heap = []\<rparr>"

text \<open>\<^verbatim>\<open>_, binary_image = cv2.threshold(image_gray, 150, 255, cv2.THRESH_BINARY)\<close>\<close>

definition line21 :: "pystate \<Rightarrow> pystate option" where
  "line21 s = do {
     image_gray \<leftarrow> array_of s ''image_gray'';
     Some (new_array ''binary_image'' (cv2_threshold image_gray 150 255) s)
   }"

text \<open>\<^verbatim>\<open>hit_kernel = cv2.getStructuringElement(cv2.MORPH_ELLIPSE, (20, 20))\<close>\<close>

definition line26 :: "pystate \<Rightarrow> pystate option" where
  "line26 s = Some (new_array ''hit_kernel'' (cv2_getStructuringElement_ellipse 20 20) s)"

text \<open>\<^verbatim>\<open>miss_kernel = cv2.getStructuringElement(cv2.MORPH_ELLIPSE, (40, 40))\<close>\<close>

definition line31 :: "pystate \<Rightarrow> pystate option" where
  "line31 s = Some (new_array ''miss_kernel'' (cv2_getStructuringElement_ellipse 40 40) s)"

text \<open>\<^verbatim>\<open>miss_kernel[10:30, 10:30] = 0\<close>: the array that the name refers to is overwritten.\<close>

definition line32 :: "pystate \<Rightarrow> pystate option" where
  "line32 s = do {
     p \<leftarrow> env s ''miss_kernel'';
     if p < length (heap s)
     then Some (s\<lparr>heap := (heap s)[p := assign_slice (heap s ! p) 10 30 10 30 0]\<rparr>)
     else None
   }"

text \<open>\<^verbatim>\<open>erosion_hit = cv2.erode(binary_image, hit_kernel, iterations=1)\<close>\<close>

definition line36 :: "pystate \<Rightarrow> pystate option" where
  "line36 s = do {
     binary_image \<leftarrow> array_of s ''binary_image'';
     hit_kernel \<leftarrow> array_of s ''hit_kernel'';
     Some (new_array ''erosion_hit'' (cv2_erode binary_image hit_kernel) s)
   }"

text \<open>\<^verbatim>\<open>complement_image = cv2.bitwise_not(binary_image)\<close>\<close>

definition line40 :: "pystate \<Rightarrow> pystate option" where
  "line40 s = do {
     binary_image \<leftarrow> array_of s ''binary_image'';
     Some (new_array ''complement_image'' (cv2_bitwise_not binary_image) s)
   }"

text \<open>\<^verbatim>\<open>erosion_miss = cv2.erode(complement_image, miss_kernel, iterations=1)\<close>\<close>

definition line42 :: "pystate \<Rightarrow> pystate option" where
  "line42 s = do {
     complement_image \<leftarrow> array_of s ''complement_image'';
     miss_kernel \<leftarrow> array_of s ''miss_kernel'';
     Some (new_array ''erosion_miss'' (cv2_erode complement_image miss_kernel) s)
   }"

text \<open>\<^verbatim>\<open>hit_or_miss_result = cv2.bitwise_and(erosion_hit, erosion_miss)\<close>\<close>

definition line47 :: "pystate \<Rightarrow> pystate option" where
  "line47 s = do {
     erosion_hit \<leftarrow> array_of s ''erosion_hit'';
     erosion_miss \<leftarrow> array_of s ''erosion_miss'';
     Some (new_array ''hit_or_miss_result'' (cv2_bitwise_and erosion_hit erosion_miss) s)
   }"

text \<open>
  Running statements in order. The result lists the state before the first statement
  and the state after each one, so that what a statement did to the heap can be read off.
\<close>

fun exec :: "(pystate \<Rightarrow> pystate option) list \<Rightarrow> pystate \<Rightarrow> pystate list option" where
  "exec [] s = Some [s]"
| "exec (stmt # stmts) s = do {
     s' \<leftarrow> stmt s;
     states \<leftarrow> exec stmts s';
     Some (s # states)
   }"

definition body :: "(pystate \<Rightarrow> pystate option) list" where
  "body = [line21, line26, line31, line32, line36, line40, line42, line47]"

definition transform :: "grid \<Rightarrow> pystate list option" where
  "transform image_gray = exec body (initial image_gray)"

text \<open>The array a local name refers to when line 47 is done.\<close>

definition final :: "grid \<Rightarrow> string \<Rightarrow> grid option" where
  "final image_gray x = do { states \<leftarrow> transform image_gray; array_of (last states) x }"

text \<open>
  A statement leaves the arrays that exist before it as they are when the heap after
  it starts with the heap before it.
\<close>

definition keeps_arrays :: "pystate \<Rightarrow> pystate \<Rightarrow> bool" where
  "keeps_arrays s s' = (take (length (heap s)) (heap s') = heap s)"

section \<open>Files, console and display\<close>










section \<open>Running the body\<close>

lemmas line_defs =
  line21_def line26_def line31_def line32_def line36_def line40_def line42_def line47_def

lemmas run_defs =
  final_def transform_def body_def initial_def line_defs new_array_def array_of_def

lemma final_image_gray: "final img ''image_gray'' = Some img"
  by (simp add: run_defs)

lemma final_binary_image: "final img ''binary_image'' = Some (cv2_threshold img 150 255)"
  by (simp add: run_defs)

lemma final_hit_kernel:
  "final img ''hit_kernel'' = Some (cv2_getStructuringElement_ellipse 20 20)"
  by (simp add: run_defs)

lemma final_miss_kernel:
  "final img ''miss_kernel'' =
     Some (assign_slice (cv2_getStructuringElement_ellipse 40 40) 10 30 10 30 0)"
  by (simp add: run_defs)

lemma final_erosion_hit:
  "final img ''erosion_hit'' =
     Some (cv2_erode (cv2_threshold img 150 255) (cv2_getStructuringElement_ellipse 20 20))"
  by (simp add: run_defs)

lemma final_complement_image:
  "final img ''complement_image'' = Some (cv2_bitwise_not (cv2_threshold img 150 255))"
  by (simp add: run_defs)

lemma final_erosion_miss:
  "final img ''erosion_miss'' =
     Some (cv2_erode (cv2_bitwise_not (cv2_threshold img 150 255))
             (assign_slice (cv2_getStructuringElement_ellipse 40 40) 10 30 10 30 0))"
  by (simp add: run_defs)

lemma final_hit_or_miss_result:
  "final img ''hit_or_miss_result'' =
     Some (cv2_bitwise_and
             (cv2_erode (cv2_threshold img 150 255) (cv2_getStructuringElement_ellipse 20 20))
             (cv2_erode (cv2_bitwise_not (cv2_threshold img 150 255))
                (assign_slice (cv2_getStructuringElement_ellipse 40 40) 10 30 10 30 0)))"
  by (simp add: run_defs)

lemmas final_simps =
  final_image_gray final_binary_image final_hit_kernel final_miss_kernel final_erosion_hit
  final_complement_image final_erosion_miss final_hit_or_miss_result

section \<open>Shapes and cells\<close>

lemma cv2_bitwise_not_twice: "cv2_bitwise_not (cv2_bitwise_not g) = g"
  by (simp add: cv2_bitwise_not_def comp_def)

lemma height_cv2_threshold: "height (cv2_threshold g t m) = height g"
  by (simp add: height_def cv2_threshold_def)

lemma width_cv2_threshold: "width (cv2_threshold g t m) = width g"
  by (cases g) (simp_all add: width_def cv2_threshold_def)

lemma rect_cv2_threshold: "rect g \<Longrightarrow> rect (cv2_threshold g t m)"
  unfolding rect_def width_cv2_threshold
  by (simp add: cv2_threshold_def list_all_iff)

lemma height_cv2_bitwise_not: "height (cv2_bitwise_not g) = height g"
  by (simp add: height_def cv2_bitwise_not_def)

lemma width_cv2_bitwise_not: "width (cv2_bitwise_not g) = width g"
  by (cases g) (simp_all add: width_def cv2_bitwise_not_def)

lemma rect_cv2_bitwise_not: "rect g \<Longrightarrow> rect (cv2_bitwise_not g)"
  unfolding rect_def width_cv2_bitwise_not
  by (simp add: cv2_bitwise_not_def list_all_iff)

lemma height_cv2_erode: "height (cv2_erode src ker) = height src"
  by (simp add: height_def cv2_erode_def)

lemma width_map_upt: "0 < n \<Longrightarrow> width (map f [0..<n]) = length (f 0)"
  by (subst upt_rec) (simp add: width_def)

lemma width_cv2_erode: "width (cv2_erode src ker) = width src"
proof (cases "height src = 0")
  case True
  then show ?thesis by (simp add: width_def cv2_erode_def height_def)
next
  case False
  then show ?thesis by (simp add: cv2_erode_def Let_def width_map_upt)
qed

lemma rect_cv2_erode: "rect (cv2_erode src ker)"
  unfolding rect_def width_cv2_erode
  by (simp add: cv2_erode_def list_all_iff)

lemma cv2_erode_nth:
  "r < height src \<Longrightarrow> c < width src \<Longrightarrow>
   cv2_erode src ker ! r ! c = erode_at src (kernel_offsets ker) r c"
  by (simp add: cv2_erode_def)

lemma rect_nth: "rect g \<Longrightarrow> r < height g \<Longrightarrow> length (g ! r) = width g"
  by (simp add: rect_def height_def list_all_length)

lemma height_cv2_bitwise_and:
  "height a = height b \<Longrightarrow> height (cv2_bitwise_and a b) = height a"
  by (simp add: height_def cv2_bitwise_and_def)

lemma width_cv2_bitwise_and:
  "width a = width b \<Longrightarrow> height a = height b \<Longrightarrow> width (cv2_bitwise_and a b) = width a"
  by (cases a; cases b) (simp_all add: width_def height_def cv2_bitwise_and_def)

lemma rect_cv2_bitwise_and:
  assumes "rect a" "rect b" "width a = width b" "height a = height b"
  shows "rect (cv2_bitwise_and a b)"
proof -
  have "length row = width a" if "row \<in> set (cv2_bitwise_and a b)" for row
  proof -
    from that obtain i where i: "i < length a" "i < length b"
      and row: "row = map2 (\<lambda>u v. u AND v) (a ! i) (b ! i)"
      by (auto simp: cv2_bitwise_and_def in_set_conv_nth)
    with assms show ?thesis by (simp add: rect_nth height_def)
  qed
  with assms show ?thesis
    by (simp add: rect_def width_cv2_bitwise_and list_all_iff)
qed

lemma cv2_bitwise_and_nth:
  assumes "rect a" "rect b" "width a = width b" "height a = height b"
    and "r < height a" "c < width a"
  shows "cv2_bitwise_and a b ! r ! c = (a ! r ! c) AND (b ! r ! c)"
  using assms by (simp add: cv2_bitwise_and_def height_def rect_nth)

lemma cv2_bitwise_not_nth:
  "r < height g \<Longrightarrow> c < length (g ! r) \<Longrightarrow> cv2_bitwise_not g ! r ! c = NOT (g ! r ! c)"
  by (simp add: cv2_bitwise_not_def height_def)

lemma cv2_threshold_nth:
  "r < length img \<Longrightarrow> c < length (img ! r) \<Longrightarrow>
   cv2_threshold img t m ! r ! c = (if t < unat (img ! r ! c) then m else 0)"
  by (simp add: cv2_threshold_def)

lemma height_ellipse: "height (cv2_getStructuringElement_ellipse kw kh) = kh"
  by (simp add: height_def cv2_getStructuringElement_ellipse_def)

lemma length_ellipse_row: "length (ellipse_row kw kh i) = kw"
  by (simp add: ellipse_row_def Let_def)

lemma width_ellipse: "0 < kh \<Longrightarrow> width (cv2_getStructuringElement_ellipse kw kh) = kw"
  by (simp add: cv2_getStructuringElement_ellipse_def width_map_upt length_ellipse_row)

lemma ellipse_nth:
  "i < kh \<Longrightarrow> cv2_getStructuringElement_ellipse kw kh ! i = ellipse_row kw kh i"
  by (simp add: cv2_getStructuringElement_ellipse_def)

lemma length_assign_slice: "length (assign_slice a r0 r1 c0 c1 v) = length a"
  by (simp add: assign_slice_def)

lemma assign_slice_row:
  "i < length a \<Longrightarrow>
   assign_slice a r0 r1 c0 c1 v ! i =
     map (\<lambda>(j, x). if r0 \<le> i \<and> i < r1 \<and> c0 \<le> j \<and> j < c1 then v else x) (enumerate 0 (a ! i))"
  by (simp add: assign_slice_def nth_enumerate_eq)

lemma length_assign_slice_row:
  "i < length a \<Longrightarrow> length (assign_slice a r0 r1 c0 c1 v ! i) = length (a ! i)"
  by (simp add: assign_slice_row)

lemma assign_slice_nth:
  "i < length a \<Longrightarrow> j < length (a ! i) \<Longrightarrow>
   assign_slice a r0 r1 c0 c1 v ! i ! j =
     (if r0 \<le> i \<and> i < r1 \<and> c0 \<le> j \<and> j < c1 then v else a ! i ! j)"
  by (simp add: assign_slice_row nth_enumerate_eq)

lemma height_assign_slice: "height (assign_slice a r0 r1 c0 c1 v) = height a"
  by (simp add: height_def length_assign_slice)

lemma width_assign_slice: "width (assign_slice a r0 r1 c0 c1 v) = width a"
  by (cases a) (simp_all add: width_def assign_slice_def)

lemma rect_assign_slice: "rect a \<Longrightarrow> rect (assign_slice a r0 r1 c0 c1 v)"
  by (simp add: rect_def width_assign_slice list_all_length length_assign_slice
      length_assign_slice_row)

lemma rect_ellipse: "rect (cv2_getStructuringElement_ellipse kw kh)"
proof (cases "kh = 0")
  case True
  then show ?thesis by (simp add: rect_def cv2_getStructuringElement_ellipse_def)
next
  case False
  have "\<forall>row \<in> set (cv2_getStructuringElement_ellipse kw kh). length row = kw"
    by (auto simp: cv2_getStructuringElement_ellipse_def length_ellipse_row)
  with False show ?thesis
    by (simp add: rect_def width_ellipse list_all_iff)
qed

section \<open>Erosion and the two structuring elements\<close>

lemma fold_min_le_init: "fold min xs a \<le> (a :: 'a :: linorder)"
proof (induction xs arbitrary: a)
  case Nil
  show ?case by simp
next
  case (Cons y ys)
  have "fold min ys (min y a) \<le> min y a" by (rule Cons.IH)
  also have "min y a \<le> a" by simp
  finally show ?case by simp
qed

lemma fold_min_le_mem: "x \<in> set xs \<Longrightarrow> fold min xs a \<le> (x :: 'a :: linorder)"
proof (induction xs arbitrary: a)
  case Nil
  then show ?case by simp
next
  case (Cons y ys)
  show ?case
  proof (cases "x = y")
    case True
    have "fold min ys (min y a) \<le> min y a" by (rule fold_min_le_init)
    also have "min y a \<le> y" by simp
    finally show ?thesis using True by simp
  next
    case False
    with Cons show ?thesis by simp
  qed
qed

lemma fold_min_in: "fold min xs a \<in> insert (a :: 'a :: linorder) (set xs)"
proof (induction xs arbitrary: a)
  case Nil
  show ?case by simp
next
  case (Cons y ys)
  have step: "fold min ys (min y a) \<in> insert (min y a) (set ys)" by (rule Cons.IH)
  have "min y a = y \<or> min y a = a" by (simp add: min_def)
  then show ?case
  proof
    assume "min y a = y"
    with step have "fold min ys y \<in> insert y (set ys)" by simp
    with \<open>min y a = y\<close> show ?thesis by auto
  next
    assume "min y a = a"
    with step have "fold min ys a \<in> insert a (set ys)" by simp
    with \<open>min y a = a\<close> show ?thesis by auto
  qed
qed

lemma erode_at_le:
  assumes "(dy, dx) \<in> set offs"
  shows "erode_at src offs y x \<le> sample src (int y + dy) (int x + dx)"
proof -
  have "sample src (int y + dy) (int x + dx)
          \<in> set (map (\<lambda>(dy, dx). sample src (int y + dy) (int x + dx)) offs)"
    using assms by force
  then show ?thesis unfolding erode_at_def by (rule fold_min_le_mem)
qed

lemma erode_at_two_valued:
  assumes "\<And>y x. sample src y x = 0 \<or> sample src y x = 255"
  shows "erode_at src offs y x = 0 \<or> erode_at src offs y x = 255"
proof -
  have "erode_at src offs y x
          \<in> insert 255 (set (map (\<lambda>(dy, dx). sample src (int y + dy) (int x + dx)) offs))"
    unfolding erode_at_def by (rule fold_min_in)
  then consider "erode_at src offs y x = 255"
    | dy dx where "erode_at src offs y x = sample src (int y + dy) (int x + dx)"
    by auto
  then show ?thesis
  proof cases
    case 1
    then show ?thesis by simp
  next
    case 2
    with assms [of "int y + dy" "int x + dx"] show ?thesis by simp
  qed
qed


lemma sample_cv2_threshold:
  assumes "rect img"
  shows "sample (cv2_threshold img t 255) y x = 0 \<or> sample (cv2_threshold img t 255) y x = 255"
proof (cases "0 \<le> y \<and> y < int (height img) \<and> 0 \<le> x \<and> x < int (width img)")
  case True
  then have row: "nat y < height img" by (simp add: nat_less_iff)
  with assms have "length (img ! nat y) = width img" by (rule rect_nth)
  with True have "nat x < length (img ! nat y)" by (simp add: nat_less_iff)
  with row True show ?thesis
    by (simp add: sample_def cv2_threshold_nth height_cv2_threshold width_cv2_threshold
        height_def)
next
  case False
  then show ?thesis
    by (auto simp: sample_def height_cv2_threshold width_cv2_threshold)
qed

lemma sample_cv2_bitwise_not:
  assumes "rect g" and "\<And>y x. sample g y x = 0 \<or> sample g y x = 255"
  shows "sample (cv2_bitwise_not g) y x = 0 \<or> sample (cv2_bitwise_not g) y x = 255"
proof (cases "0 \<le> y \<and> y < int (height g) \<and> 0 \<le> x \<and> x < int (width g)")
  case True
  then have row: "nat y < height g" by (simp add: nat_less_iff)
  with assms(1) have "length (g ! nat y) = width g" by (rule rect_nth)
  with True have col: "nat x < length (g ! nat y)" by (simp add: nat_less_iff)
  note in_range = row col
  from True have "sample g y x = g ! nat y ! nat x" by (simp add: sample_def)
  with assms(2) [of y x] have "g ! nat y ! nat x = 0 \<or> g ! nat y ! nat x = 255" by simp
  moreover from True in_range have "sample (cv2_bitwise_not g) y x = NOT (g ! nat y ! nat x)"
    by (simp add: sample_def height_cv2_bitwise_not width_cv2_bitwise_not cv2_bitwise_not_nth)
  ultimately show ?thesis by auto
next
  case False
  then show ?thesis
    by (auto simp: sample_def height_cv2_bitwise_not width_cv2_bitwise_not)
qed

lemma kernel_offsets_mem:
  assumes "i < length ker" and "j < length (ker ! i)" and "ker ! i ! j \<noteq> 0"
  shows "(int i - int (height ker div 2), int j - int (width ker div 2))
           \<in> set (kernel_offsets ker)"
proof -
  have "(i, ker ! i) \<in> set (enumerate 0 ker)"
    using assms(1) by (simp add: in_set_enumerate_eq)
  moreover have "(j, ker ! i ! j) \<in> set (enumerate 0 (ker ! i))"
    using assms(2) by (simp add: in_set_enumerate_eq)
  ultimately show ?thesis
    using assms(3) unfolding kernel_offsets_def Let_def by force
qed


lemma ellipse_row_40_centre:
  "ellipse_row 40 40 20 ! 0 = 1" "ellipse_row 40 40 20 ! 20 = 1" "ellipse_row 40 40 20 ! 30 = 1"
  by (simp_all add: ellipse_row_def ellipse_dx_def Let_def upt_rec)


lemma miss_kernel_left:
  "(0, - 20) \<in> set (kernel_offsets
      (assign_slice (cv2_getStructuringElement_ellipse 40 40) 10 30 10 30 0))"
  using kernel_offsets_mem
    [of 20 "assign_slice (cv2_getStructuringElement_ellipse 40 40) 10 30 10 30 0" 0]
  by (simp add: height_assign_slice width_assign_slice height_ellipse width_ellipse
      length_assign_slice length_assign_slice_row assign_slice_nth ellipse_nth
      length_ellipse_row ellipse_row_40_centre flip: height_def)

lemma miss_kernel_right:
  "(0, 10) \<in> set (kernel_offsets
      (assign_slice (cv2_getStructuringElement_ellipse 40 40) 10 30 10 30 0))"
  using kernel_offsets_mem
    [of 20 "assign_slice (cv2_getStructuringElement_ellipse 40 40) 10 30 10 30 0" 30]
  by (simp add: height_assign_slice width_assign_slice height_ellipse width_ellipse
      length_assign_slice length_assign_slice_row assign_slice_nth ellipse_nth
      length_ellipse_row ellipse_row_40_centre flip: height_def)

lemma erosion_hit_two_valued:
  assumes "rect img"
  shows "erode_at (cv2_threshold img 150 255) offs y x = 0 \<or>
         erode_at (cv2_threshold img 150 255) offs y x = 255"
  using sample_cv2_threshold [OF assms] by (rule erode_at_two_valued)

lemma erosion_miss_two_valued:
  assumes "rect img"
  shows "erode_at (cv2_bitwise_not (cv2_threshold img 150 255)) offs y x = 0 \<or>
         erode_at (cv2_bitwise_not (cv2_threshold img 150 255)) offs y x = 255"
proof (rule erode_at_two_valued)
  fix y x
  show "sample (cv2_bitwise_not (cv2_threshold img 150 255)) y x = 0 \<or>
        sample (cv2_bitwise_not (cv2_threshold img 150 255)) y x = 255"
    using rect_cv2_threshold [OF assms] sample_cv2_threshold [OF assms]
    by (rule sample_cv2_bitwise_not)
qed

lemma map2_absorb_right:
  assumes "\<And>x y. f (f x y) y = f x y"
  shows "map2 f (map2 f xs ys) ys = map2 f xs ys"
proof (induction xs arbitrary: ys)
  case Nil
  show ?case by simp
next
  case (Cons x xs)
  then show ?case by (cases ys) (simp_all add: assms)
qed

lemma map2_absorb_left:
  assumes "\<And>x y. f x (f x y) = f x y"
  shows "map2 f xs (map2 f xs ys) = map2 f xs ys"
proof (induction xs arbitrary: ys)
  case Nil
  show ?case by simp
next
  case (Cons x xs)
  then show ?case by (cases ys) (simp_all add: assms)
qed

lemma cv2_bitwise_and_absorb_right:
  "cv2_bitwise_and (cv2_bitwise_and a b) b = cv2_bitwise_and a b"
  unfolding cv2_bitwise_and_def
  by (intro map2_absorb_right) (simp add: and.assoc)

lemma cv2_bitwise_and_absorb_left:
  "cv2_bitwise_and a (cv2_bitwise_and a b) = cv2_bitwise_and a b"
  unfolding cv2_bitwise_and_def
  by (intro map2_absorb_left) (simp flip: and.assoc)

lemma cv2_bitwise_and_same: "cv2_bitwise_and a a = a"
  by (simp add: cv2_bitwise_and_def zip_same_conv_map map_idI)

lemma ellipse_40_centre: "cv2_getStructuringElement_ellipse 40 40 ! 20 ! 20 = 1"
  by (simp add: ellipse_nth ellipse_row_40_centre)

lemma assign_slice_inside:
  assumes "i < length a" and "j < length (a ! i)"
    and "r0 \<le> i" "i < r1" "c0 \<le> j" "j < c1"
  shows "assign_slice a r0 r1 c0 c1 v ! i ! j = v"
  using assms by (simp add: assign_slice_nth)

lemma carved_centre:
  "assign_slice (cv2_getStructuringElement_ellipse 40 40) 10 30 10 30 0 ! 20 ! 20 = 0"
  by (rule assign_slice_inside)
     (simp_all add: ellipse_nth length_ellipse_row cv2_getStructuringElement_ellipse_def)

lemma carve_changes:
  "assign_slice (cv2_getStructuringElement_ellipse 40 40) 10 30 10 30 0
     \<noteq> cv2_getStructuringElement_ellipse 40 40"
proof
  assume "assign_slice (cv2_getStructuringElement_ellipse 40 40) 10 30 10 30 0
            = cv2_getStructuringElement_ellipse 40 40"
  then have "assign_slice (cv2_getStructuringElement_ellipse 40 40) 10 30 10 30 0 ! 20 ! 20
               = cv2_getStructuringElement_ellipse 40 40 ! 20 ! 20"
    by simp
  then show False by (simp add: carved_centre ellipse_40_centre)
qed

lemma map_upt_const: "(\<And>i. i < n \<Longrightarrow> f i = v) \<Longrightarrow> map f [0..<n] = replicate n v"
  by (rule nth_equalityI) simp_all

lemma height_replicate: "height (replicate n row) = n"
  by (simp add: height_def)

lemma width_replicate: "0 < n \<Longrightarrow> width (replicate n row) = length row"
  by (cases n) (simp_all add: width_def)

lemma rect_replicate: "rect (replicate n row)"
  by (cases n) (simp_all add: rect_def width_def list_all_iff)

lemma erode_miss_of_zeros:
  assumes "30 \<le> w"
  shows "cv2_erode (replicate h (replicate w 0))
           (assign_slice (cv2_getStructuringElement_ellipse 40 40) 10 30 10 30 0)
         = replicate h (replicate w 0)"
proof (cases "h = 0")
  case True
  then show ?thesis by (simp add: cv2_erode_def height_def)
next
  case False
  let ?src = "replicate h (replicate w (0 :: pixel))"
  let ?offs = "kernel_offsets
    (assign_slice (cv2_getStructuringElement_ellipse 40 40) 10 30 10 30 0)"
  from False have shape: "height ?src = h" "width ?src = w"
    by (simp_all add: height_replicate width_replicate)
  have zero: "erode_at ?src ?offs y x = 0" if "y < h" "x < w" for y x
  proof (cases "20 \<le> x")
    case True
    have "erode_at ?src ?offs y x \<le> sample ?src (int y + 0) (int x + (- 20))"
      using miss_kernel_left by (rule erode_at_le)
    also have "\<dots> = 0"
      using that True by (simp add: sample_def shape)
    finally show ?thesis by simp
  next
    case False
    have "erode_at ?src ?offs y x \<le> sample ?src (int y + 0) (int x + 10)"
      using miss_kernel_right by (rule erode_at_le)
    also have "\<dots> = 0"
      using that False assms by (simp add: sample_def shape nat_add_distrib)
    finally show ?thesis by simp
  qed
  show ?thesis
    unfolding cv2_erode_def Let_def shape
    by (intro map_upt_const) (simp add: zero)
qed

lemma cv2_bitwise_and_zeros:
  assumes "rect a" and "height a = h" and "width a = w"
  shows "cv2_bitwise_and a (replicate h (replicate w 0)) = replicate h (replicate w 0)"
proof (rule nth_equalityI)
  show "length (cv2_bitwise_and a (replicate h (replicate w 0)))
          = length (replicate h (replicate w (0 :: pixel)))"
    using assms by (simp add: cv2_bitwise_and_def height_def)
next
  fix i
  assume "i < length (cv2_bitwise_and a (replicate h (replicate w 0)))"
  then have i: "i < h" by (simp add: cv2_bitwise_and_def)
  with assms have "length (a ! i) = w" by (simp add: rect_nth)
  with i assms(2) show "cv2_bitwise_and a (replicate h (replicate w 0)) ! i
          = replicate h (replicate w 0) ! i"
    by (simp add: cv2_bitwise_and_def height_def list_eq_iff_nth_eq)
qed

section \<open>Binarization\<close>

text \<open>
  C1 (as amended). For every raster and every cell, the binarized mask is 255 if and
  only if the raster sample at that cell is strictly greater than 150, and is 0
  otherwise.
\<close>

theorem binarize_strict:
  assumes "r < length img" and "c < length (img ! r)"
  shows "\<exists>b. final img ''binary_image'' = Some b \<and>
             b ! r ! c = (if 150 < img ! r ! c then 255 else 0) \<and>
             (b ! r ! c = 255 \<longleftrightarrow> 150 < img ! r ! c)"
  using assms by (simp add: final_simps cv2_threshold_nth word_less_nat_alt)

theorem binarize_strict_witness:
  "\<exists>b. final [[149, 150, 151]] ''binary_image'' = Some b \<and>
       b ! 0 ! 2 = (if 150 < [[149, 150, 151 :: pixel]] ! 0 ! 2 then 255 else 0) \<and>
       (b ! 0 ! 2 = 255 \<longleftrightarrow> 150 < [[149, 150, 151 :: pixel]] ! 0 ! 2)"
  using binarize_strict [of 0 "[[149, 150, 151]]" 2] by simp

text \<open>
  The claim as the specification words it (255 if and only if the sample is at least
  150) fails on the one-cell raster holding 150: the sample is at least 150 and the mask
  is 0 there.
\<close>

theorem binarize_at_150_counterexample:
  "(150 :: pixel) \<ge> 150 \<and> final [[150]] ''binary_image'' = Some [[0]]"
  by (simp add: final_simps cv2_threshold_def)

section \<open>Complement\<close>

text \<open>
  C6. The complement is involutive: complementing the binarized mask twice gives the
  binarized mask back, cell by cell (and so for any array of samples).
\<close>

theorem complement_involutive:
  "\<exists>b c. final img ''binary_image'' = Some b \<and> final img ''complement_image'' = Some c \<and>
         c = cv2_bitwise_not b \<and> cv2_bitwise_not c = b \<and>
         (\<forall>g. cv2_bitwise_not (cv2_bitwise_not g) = g)"
  by (simp add: final_simps cv2_bitwise_not_twice)

section \<open>Combining the two erosions\<close>

text \<open>
  C2. At every cell the detection mask is foreground (255) if and only if both the
  hit-erosion and the miss-erosion are foreground there, and it is background (0)
  otherwise; and-ing the detection mask once more with either erosion result, or with
  itself, gives the detection mask again.
\<close>

theorem detection_is_and:
  assumes "rect img" and "r < height img" and "c < width img"
  shows "\<exists>eh em res.
           final img ''erosion_hit'' = Some eh \<and> final img ''erosion_miss'' = Some em \<and>
           final img ''hit_or_miss_result'' = Some res \<and>
           (res ! r ! c = 255 \<longleftrightarrow> eh ! r ! c = 255 \<and> em ! r ! c = 255) \<and>
           (res ! r ! c = 0 \<longleftrightarrow> \<not> (eh ! r ! c = 255 \<and> em ! r ! c = 255)) \<and>
           cv2_bitwise_and (cv2_bitwise_and eh em) em = res \<and>
           cv2_bitwise_and eh (cv2_bitwise_and eh em) = res \<and>
           cv2_bitwise_and res res = res"
proof -
  define b where "b = cv2_threshold img 150 255"
  define eh where "eh = cv2_erode b (cv2_getStructuringElement_ellipse 20 20)"
  define em where "em = cv2_erode (cv2_bitwise_not b)
    (assign_slice (cv2_getStructuringElement_ellipse 40 40) 10 30 10 30 0)"
  have dims: "height eh = height img" "width eh = width img"
    "height em = height img" "width em = width img"
    by (simp_all add: eh_def em_def b_def height_cv2_erode width_cv2_erode
        height_cv2_threshold width_cv2_threshold height_cv2_bitwise_not width_cv2_bitwise_not)
  have cell: "cv2_bitwise_and eh em ! r ! c = (eh ! r ! c) AND (em ! r ! c)"
    using assms dims
    by (intro cv2_bitwise_and_nth) (simp_all add: eh_def em_def rect_cv2_erode)
  have "eh ! r ! c = erode_at b (kernel_offsets (cv2_getStructuringElement_ellipse 20 20)) r c"
    using assms
    by (simp add: eh_def b_def cv2_erode_nth height_cv2_threshold width_cv2_threshold)
  then have eh2: "eh ! r ! c = 0 \<or> eh ! r ! c = 255"
    using erosion_hit_two_valued [OF assms(1)] by (simp add: b_def)
  have "em ! r ! c = erode_at (cv2_bitwise_not b) (kernel_offsets
      (assign_slice (cv2_getStructuringElement_ellipse 40 40) 10 30 10 30 0)) r c"
    using assms
    by (simp add: em_def b_def cv2_erode_nth height_cv2_threshold width_cv2_threshold
        height_cv2_bitwise_not width_cv2_bitwise_not)
  then have em2: "em ! r ! c = 0 \<or> em ! r ! c = 255"
    using erosion_miss_two_valued [OF assms(1)] by (simp add: b_def)
  have "(cv2_bitwise_and eh em ! r ! c = 255 \<longleftrightarrow> eh ! r ! c = 255 \<and> em ! r ! c = 255) \<and>
        (cv2_bitwise_and eh em ! r ! c = 0 \<longleftrightarrow> \<not> (eh ! r ! c = 255 \<and> em ! r ! c = 255))"
    using eh2 em2 unfolding cell by auto
  then show ?thesis
    by (simp add: final_simps cv2_bitwise_and_absorb_right cv2_bitwise_and_absorb_left
        cv2_bitwise_and_same flip: b_def eh_def em_def)
qed

theorem detection_is_and_witness:
  "\<exists>eh em res.
     final [[200, 10]] ''erosion_hit'' = Some eh \<and> final [[200, 10]] ''erosion_miss'' = Some em \<and>
     final [[200, 10]] ''hit_or_miss_result'' = Some res \<and>
     (res ! 0 ! 1 = 255 \<longleftrightarrow> eh ! 0 ! 1 = 255 \<and> em ! 0 ! 1 = 255) \<and>
     (res ! 0 ! 1 = 0 \<longleftrightarrow> \<not> (eh ! 0 ! 1 = 255 \<and> em ! 0 ! 1 = 255)) \<and>
     cv2_bitwise_and (cv2_bitwise_and eh em) em = res \<and>
     cv2_bitwise_and eh (cv2_bitwise_and eh em) = res \<and>
     cv2_bitwise_and res res = res"
  using detection_is_and [of "[[200, 10]]" 0 1]
  by (simp add: rect_def height_def width_def)



section \<open>Shapes\<close>

text \<open>
  C7. For a rectangular raster, the binarized mask, its complement, both erosion
  results and the detection mask are rectangular with the raster's height and width;
  the hit structuring element is 20 by 20 and the miss structuring element 40 by 40.
\<close>

theorem grids_share_shape:
  assumes "rect img"
  shows "\<exists>b c eh em res hk mk.
           final img ''binary_image'' = Some b \<and> final img ''complement_image'' = Some c \<and>
           final img ''erosion_hit'' = Some eh \<and> final img ''erosion_miss'' = Some em \<and>
           final img ''hit_or_miss_result'' = Some res \<and>
           final img ''hit_kernel'' = Some hk \<and> final img ''miss_kernel'' = Some mk \<and>
           (rect b \<and> height b = height img \<and> width b = width img) \<and>
           (rect c \<and> height c = height img \<and> width c = width img) \<and>
           (rect eh \<and> height eh = height img \<and> width eh = width img) \<and>
           (rect em \<and> height em = height img \<and> width em = width img) \<and>
           (rect res \<and> height res = height img \<and> width res = width img) \<and>
           (rect hk \<and> height hk = 20 \<and> width hk = 20) \<and>
           (rect mk \<and> height mk = 40 \<and> width mk = 40)"
proof -
  define b where "b = cv2_threshold img 150 255"
  define eh where "eh = cv2_erode b (cv2_getStructuringElement_ellipse 20 20)"
  define em where "em = cv2_erode (cv2_bitwise_not b)
    (assign_slice (cv2_getStructuringElement_ellipse 40 40) 10 30 10 30 0)"
  have b_shape: "rect b" "height b = height img" "width b = width img"
    using assms by (simp_all add: b_def rect_cv2_threshold height_cv2_threshold width_cv2_threshold)
  then have c_shape: "rect (cv2_bitwise_not b)" "height (cv2_bitwise_not b) = height img"
    "width (cv2_bitwise_not b) = width img"
    by (simp_all add: rect_cv2_bitwise_not height_cv2_bitwise_not width_cv2_bitwise_not)
  have eh_shape: "rect eh" "height eh = height img" "width eh = width img"
    by (simp_all add: eh_def rect_cv2_erode height_cv2_erode width_cv2_erode b_shape)
  have em_shape: "rect em" "height em = height img" "width em = width img"
    by (simp_all add: em_def rect_cv2_erode height_cv2_erode width_cv2_erode c_shape)
  have res_shape: "rect (cv2_bitwise_and eh em)" "height (cv2_bitwise_and eh em) = height img"
    "width (cv2_bitwise_and eh em) = width img"
    by (simp_all add: rect_cv2_bitwise_and height_cv2_bitwise_and width_cv2_bitwise_and
        eh_shape em_shape)
  have hk_shape: "rect (cv2_getStructuringElement_ellipse 20 20)"
    "height (cv2_getStructuringElement_ellipse 20 20) = 20"
    "width (cv2_getStructuringElement_ellipse 20 20) = 20"
    by (simp_all add: rect_ellipse height_ellipse width_ellipse)
  have mk_shape: "rect (assign_slice (cv2_getStructuringElement_ellipse 40 40) 10 30 10 30 0)"
    "height (assign_slice (cv2_getStructuringElement_ellipse 40 40) 10 30 10 30 0) = 40"
    "width (assign_slice (cv2_getStructuringElement_ellipse 40 40) 10 30 10 30 0) = 40"
    by (simp_all add: rect_assign_slice height_assign_slice width_assign_slice
        rect_ellipse height_ellipse width_ellipse)
  from b_shape c_shape eh_shape em_shape res_shape hk_shape mk_shape show ?thesis
    by (simp add: final_simps flip: b_def eh_def em_def)
qed

theorem grids_share_shape_witness:
  "\<exists>b c eh em res hk mk.
           final [[200, 10]] ''binary_image'' = Some b \<and> final [[200, 10]] ''complement_image'' = Some c \<and>
           final [[200, 10]] ''erosion_hit'' = Some eh \<and> final [[200, 10]] ''erosion_miss'' = Some em \<and>
           final [[200, 10]] ''hit_or_miss_result'' = Some res \<and>
           final [[200, 10]] ''hit_kernel'' = Some hk \<and> final [[200, 10]] ''miss_kernel'' = Some mk \<and>
           (rect b \<and> height b = height [[200, 10]] \<and> width b = width [[200, 10]]) \<and>
           (rect c \<and> height c = height [[200, 10]] \<and> width c = width [[200, 10]]) \<and>
           (rect eh \<and> height eh = height [[200, 10]] \<and> width eh = width [[200, 10]]) \<and>
           (rect em \<and> height em = height [[200, 10]] \<and> width em = width [[200, 10]]) \<and>
           (rect res \<and> height res = height [[200, 10]] \<and> width res = width [[200, 10]]) \<and>
           (rect hk \<and> height hk = 20 \<and> width hk = 20) \<and>
           (rect mk \<and> height mk = 40 \<and> width mk = 40)"
  using grids_share_shape [of "[[200, 10]]"]
  by (simp add: rect_def width_def)

section \<open>The miss structuring element\<close>

text \<open>
  C4. In every run the miss structuring element is the 40 by 40 ellipse built by line 31
  and overwritten by line 32 with zeros in rows 10 to 29 and columns 10 to 29; its other
  cells are those of the ellipse. Zeroing that block of any array gives 0 at each cell of
  the block, whatever the array held there.
\<close>

theorem miss_kernel_carved:
  "\<exists>states mk.
     transform img = Some states \<and>
     heap (states ! 3) ! 3 = cv2_getStructuringElement_ellipse 40 40 \<and>
     heap (states ! 4) ! 3 = assign_slice (heap (states ! 3) ! 3) 10 30 10 30 0 \<and>
     final img ''miss_kernel'' = Some mk \<and> mk = heap (states ! 4) ! 3 \<and>
     rect mk \<and> height mk = 40 \<and> width mk = 40 \<and>
     (\<forall>i < 40. \<forall>j < 40.
        mk ! i ! j = (if 10 \<le> i \<and> i < 30 \<and> 10 \<le> j \<and> j < 30 then 0
                      else cv2_getStructuringElement_ellipse 40 40 ! i ! j)) \<and>
     (\<forall>base i j. i < length base \<and> j < length (base ! i) \<and>
                  10 \<le> i \<and> i < 30 \<and> 10 \<le> j \<and> j < 30 \<longrightarrow>
                  assign_slice base 10 30 10 30 0 ! i ! j = 0)"
proof -
  have "rect (assign_slice (cv2_getStructuringElement_ellipse 40 40) 10 30 10 30 0)"
    "height (assign_slice (cv2_getStructuringElement_ellipse 40 40) 10 30 10 30 0) = 40"
    "width (assign_slice (cv2_getStructuringElement_ellipse 40 40) 10 30 10 30 0) = 40"
    by (simp_all add: rect_assign_slice height_assign_slice width_assign_slice
        rect_ellipse height_ellipse width_ellipse)
  moreover have "\<forall>i < 40. \<forall>j < 40.
      assign_slice (cv2_getStructuringElement_ellipse 40 40) 10 30 10 30 0 ! i ! j =
        (if 10 \<le> i \<and> i < 30 \<and> 10 \<le> j \<and> j < 30 then 0
         else cv2_getStructuringElement_ellipse 40 40 ! i ! j)"
    using height_ellipse [of 40 40]
    by (simp add: assign_slice_nth ellipse_nth length_ellipse_row height_def)
  moreover have "\<forall>base i j. i < length base \<and> j < length (base ! i) \<and>
                  10 \<le> i \<and> i < 30 \<and> 10 \<le> j \<and> j < 30 \<longrightarrow>
                  assign_slice base 10 30 10 30 0 ! i ! j = 0"
    by (simp add: assign_slice_nth)
  ultimately show ?thesis
    by (simp add: run_defs)
qed

theorem miss_kernel_carved_witness:
  "\<exists>states mk.
     transform [[0]] = Some states \<and>
     final [[0]] ''miss_kernel'' = Some mk \<and> mk = heap (states ! 4) ! 3 \<and>
     mk ! 15 ! 25 = 0 \<and>
     assign_slice (replicate 40 (replicate 40 1)) 10 30 10 30 0 ! 12 ! 29 = 0"
proof -
  from miss_kernel_carved [of "[[0]]"] obtain states mk where
    "transform [[0]] = Some states" "final [[0]] ''miss_kernel'' = Some mk"
    "mk = heap (states ! 4) ! 3"
    and cells: "\<forall>i < 40. \<forall>j < 40.
        mk ! i ! j = (if 10 \<le> i \<and> i < 30 \<and> 10 \<le> j \<and> j < 30 then 0
                      else cv2_getStructuringElement_ellipse 40 40 ! i ! j)"
    and any: "\<forall>base i j. i < length base \<and> j < length (base ! i) \<and>
                  10 \<le> i \<and> i < 30 \<and> 10 \<le> j \<and> j < 30 \<longrightarrow>
                  assign_slice base 10 30 10 30 0 ! i ! j = (0 :: pixel)"
    by blast
  moreover from cells have "mk ! 15 ! 25 = 0" by simp
  moreover from any [rule_format, of 12 "replicate 40 (replicate 40 1)" 29]
  have "assign_slice (replicate 40 (replicate 40 1)) 10 30 10 30 0 ! 12 ! 29 = 0" by simp
  ultimately show ?thesis by blast
qed

section \<open>Which arrays are overwritten\<close>

text \<open>
  C8 (as amended). Every statement of the body except the carve-out of line 32
  allocates one new array and leaves the arrays that exist unchanged; the carve-out
  allocates nothing and overwrites one array, the one the name \<^verbatim>\<open>miss_kernel\<close> refers to.
\<close>

theorem only_carve_out_overwrites:
  "\<exists>states. transform img = Some states \<and> length states = 9 \<and>
     (\<forall>k \<in> {0, 1, 2, 4, 5, 6, 7}.
        keeps_arrays (states ! k) (states ! Suc k) \<and>
        length (heap (states ! Suc k)) = Suc (length (heap (states ! k)))) \<and>
     env (states ! 3) ''miss_kernel'' = Some 3 \<and>
     heap (states ! 4) =
       (heap (states ! 3))[3 := assign_slice (heap (states ! 3) ! 3) 10 30 10 30 0] \<and>
     env (states ! 4) = env (states ! 3)"
  by (simp add: run_defs keeps_arrays_def)

theorem only_carve_out_overwrites_witness:
  "\<exists>states. transform [[0]] = Some states \<and>
     keeps_arrays (states ! 0) (states ! Suc 0) \<and>
     length (heap (states ! Suc 0)) = Suc (length (heap (states ! 0)))"
  using only_carve_out_overwrites [of "[[0]]"] by auto

text \<open>
  The claim as the specification words it (no grid is changed after its creation) fails
  in every run, here on a one-cell raster: the array created by line 31 holds 1 at cell
  (20, 20), and the same array holds 0 there after line 32.
\<close>

theorem carve_out_overwrites_counterexample:
  "map_option (\<lambda>states. keeps_arrays (states ! 3) (states ! 4)) (transform [[0]]) = Some False \<and>
   map_option (\<lambda>states. (heap (states ! 3) ! 3 ! 20 ! 20, heap (states ! 4) ! 3 ! 20 ! 20))
     (transform [[0]]) = Some (1, 0)"
  by (simp add: run_defs keeps_arrays_def carve_changes ellipse_40_centre carved_centre)

section \<open>An all-white raster\<close>

text \<open>
  C5. For the 50 by 50 raster holding 255 everywhere, the binarized mask is 255
  everywhere, its complement is 0 everywhere, the miss-erosion is 0 everywhere and so is
  the detection mask; and-ing any 50 by 50 hit-erosion result with that miss-erosion
  gives 0 everywhere.
\<close>

theorem all_white_gives_no_detection:
  "final (replicate 50 (replicate 50 255)) ''binary_image''
     = Some (replicate 50 (replicate 50 255)) \<and>
   final (replicate 50 (replicate 50 255)) ''complement_image''
     = Some (replicate 50 (replicate 50 0)) \<and>
   final (replicate 50 (replicate 50 255)) ''erosion_miss''
     = Some (replicate 50 (replicate 50 0)) \<and>
   final (replicate 50 (replicate 50 255)) ''hit_or_miss_result''
     = Some (replicate 50 (replicate 50 0)) \<and>
   (\<forall>eh. rect eh \<and> height eh = 50 \<and> width eh = 50 \<longrightarrow>
      cv2_bitwise_and eh (replicate 50 (replicate 50 0)) = replicate 50 (replicate 50 0))"
proof -
  let ?white = "replicate 50 (replicate 50 (255 :: pixel))"
  let ?black = "replicate 50 (replicate 50 (0 :: pixel))"
  have b: "cv2_threshold ?white 150 255 = ?white"
    by (simp add: cv2_threshold_def)
  have c: "cv2_bitwise_not ?white = ?black"
    by (simp add: cv2_bitwise_not_def)
  have em: "cv2_erode ?black
      (assign_slice (cv2_getStructuringElement_ellipse 40 40) 10 30 10 30 0) = ?black"
    by (rule erode_miss_of_zeros) simp
  have any: "cv2_bitwise_and eh ?black = ?black"
    if "rect eh" "height eh = 50" "width eh = 50" for eh
    using that by (rule cv2_bitwise_and_zeros)
  have res: "cv2_bitwise_and (cv2_erode ?white (cv2_getStructuringElement_ellipse 20 20)) ?black
               = ?black"
    by (rule any)
       (simp_all add: rect_cv2_erode height_cv2_erode width_cv2_erode height_replicate
          width_replicate)
  show ?thesis
    by (simp add: final_simps b c em res any)
qed

theorem all_white_gives_no_detection_witness:
  "cv2_bitwise_and (replicate 50 (replicate 50 255)) (replicate 50 (replicate 50 0))
     = replicate 50 (replicate 50 0)"
proof -
  have "rect (replicate 50 (replicate 50 255)) \<and> height (replicate 50 (replicate 50 255)) = 50 \<and>
        width (replicate 50 (replicate 50 255)) = 50"
    by (simp add: rect_replicate height_replicate width_replicate)
  with all_white_gives_no_detection show ?thesis by blast
qed

section \<open>Load failure and failed write\<close>





end
